theory Spec2Isabelle
  imports Main
begin

section \<open>JavaScript values\<close>

text \<open>
  The adapter (src/2.6.0/wso2apim.js) works on plain data: the logical API definition
  comes from a parsed configuration file, HTTP responses are parsed JSON. A value is
  therefore one of the JSON shapes or \<open>undefined\<close>. Numbers are the integers of the safe
  range, for which \<open>String(n)\<close> is the plain decimal numeral. The pairs of an object are
  kept in the order in which \<open>Object.keys\<close> enumerates them; a property read finds the
  first pair with the key.
\<close>

datatype jsval =
    JUndefined
  | JNull
  | JBool bool
  | JNum int
  | JStr string
  | JArr "jsval list"
  | JObj "(string \<times> jsval) list"

text \<open>The value thrown by a property read on \<open>undefined\<close> or \<open>null\<close>, by spreading a
  value that is not iterable and by \<open>Object.keys\<close> on a nullish value.\<close>

definition TypeError :: jsval where
  "TypeError = JObj [(''name'', JStr ''TypeError'')]"

text \<open>A computation that may throw: \<open>Inl\<close> carries the thrown value.\<close>

definition thenJ :: "jsval + 'a \<Rightarrow> ('a \<Rightarrow> jsval + 'b) \<Rightarrow> jsval + 'b" where
  "thenJ m f = (case m of Inl e \<Rightarrow> Inl e | Inr v \<Rightarrow> f v)"

fun truthy :: "jsval \<Rightarrow> bool" where
  "truthy JUndefined = False"
| "truthy JNull = False"
| "truthy (JBool b) = b"
| "truthy (JNum n) = (n \<noteq> 0)"
| "truthy (JStr s) = (s \<noteq> [])"
| "truthy (JArr xs) = True"
| "truthy (JObj kvs) = True"

fun nullish :: "jsval \<Rightarrow> bool" where
  "nullish JUndefined = True"
| "nullish JNull = True"
| "nullish v = False"

fun is_array :: "jsval \<Rightarrow> bool" where
  "is_array (JArr xs) = True"
| "is_array v = False"

text \<open>\<open>a || b\<close>\<close>

definition js_or :: "jsval \<Rightarrow> jsval \<Rightarrow> jsval" where
  "js_or a b = (if truthy a then a else b)"

subsection \<open>Numerals and joining\<close>

definition digit_char :: "nat \<Rightarrow> char" where
  "digit_char n = char_of (48 + n)"

fun show_nat :: "nat \<Rightarrow> string" where
  "show_nat n =
     (if n < 10 then [digit_char n] else show_nat (n div 10) @ [digit_char (n mod 10)])"

definition show_int :: "int \<Rightarrow> string" where
  "show_int i = (if i < 0 then CHR ''-'' # show_nat (nat (- i)) else show_nat (nat i))"

fun join_with :: "string \<Rightarrow> string list \<Rightarrow> string" where
  "join_with sep [] = []"
| "join_with sep [x] = x"
| "join_with sep (x # y # ys) = x @ sep @ join_with sep (y # ys)"

text \<open>\<open>String(v)\<close>. An array joins its elements with a comma, where \<open>undefined\<close> and
  \<open>null\<close> elements give the empty string.\<close>

fun js_to_string :: "jsval \<Rightarrow> string" where
  "js_to_string JUndefined = ''undefined''"
| "js_to_string JNull = ''null''"
| "js_to_string (JBool b) = (if b then ''true'' else ''false'')"
| "js_to_string (JNum n) = show_int n"
| "js_to_string (JStr s) = s"
| "js_to_string (JArr xs) =
     join_with '','' (map (\<lambda>x. if nullish x then [] else js_to_string x) xs)"
| "js_to_string (JObj kvs) = ''[object Object]''"

text \<open>\<open>xs.join(sep)\<close>\<close>

definition js_join :: "string \<Rightarrow> jsval list \<Rightarrow> string" where
  "js_join sep xs = join_with sep (map (\<lambda>x. if nullish x then [] else js_to_string x) xs)"

subsection \<open>Property reads, keys, spread\<close>

text \<open>\<open>v.k\<close>: throws on \<open>undefined\<close> and \<open>null\<close>; an object gives the value stored under
  the key or \<open>undefined\<close>; arrays and strings have their length and their elements;
  numbers and booleans have no data property.\<close>

definition index_of_key :: "nat \<Rightarrow> string \<Rightarrow> nat option" where
  "index_of_key n k = (case filter (\<lambda>i. show_nat i = k) [0..<n] of [] \<Rightarrow> None | i # _ \<Rightarrow> Some i)"

fun get_prop :: "jsval \<Rightarrow> string \<Rightarrow> jsval + jsval" where
  "get_prop JUndefined k = Inl TypeError"
| "get_prop JNull k = Inl TypeError"
| "get_prop (JBool b) k = Inr JUndefined"
| "get_prop (JNum n) k = Inr JUndefined"
| "get_prop (JStr s) k =
     Inr (if k = ''length'' then JNum (int (length s))
          else case index_of_key (length s) k of None \<Rightarrow> JUndefined | Some i \<Rightarrow> JStr [s ! i])"
| "get_prop (JArr xs) k =
     Inr (if k = ''length'' then JNum (int (length xs))
          else case index_of_key (length xs) k of None \<Rightarrow> JUndefined | Some i \<Rightarrow> xs ! i)"
| "get_prop (JObj kvs) k = Inr (case map_of kvs k of None \<Rightarrow> JUndefined | Some v \<Rightarrow> v)"

text \<open>\<open>Object.keys(v)\<close>\<close>

fun Object_keys :: "jsval \<Rightarrow> jsval + string list" where
  "Object_keys JUndefined = Inl TypeError"
| "Object_keys JNull = Inl TypeError"
| "Object_keys (JBool b) = Inr []"
| "Object_keys (JNum n) = Inr []"
| "Object_keys (JStr s) = Inr (map show_nat [0..<length s])"
| "Object_keys (JArr xs) = Inr (map show_nat [0..<length xs])"
| "Object_keys (JObj kvs) = Inr (map fst kvs)"

text \<open>The elements that \<open>[...v]\<close> contributes: arrays and strings are iterable.\<close>

fun spread :: "jsval \<Rightarrow> jsval + jsval list" where
  "spread (JArr xs) = Inr xs"
| "spread (JStr s) = Inr (map (\<lambda>c. JStr [c]) s)"
| "spread v = Inl TypeError"

subsection \<open>JSON.stringify\<close>

definition hex_digit :: "bool \<Rightarrow> nat \<Rightarrow> char" where
  "hex_digit upper d =
     (if d < 10 then char_of (48 + d) else if upper then char_of (55 + d) else char_of (87 + d))"

definition json_escape :: "char \<Rightarrow> string" where
  "json_escape c =
     (if c = CHR 0x22 then [CHR 0x5C, CHR 0x22]
      else if c = CHR 0x5C then [CHR 0x5C, CHR 0x5C]
      else if c = CHR 0x08 then [CHR 0x5C, CHR ''b'']
      else if c = CHR 0x0C then [CHR 0x5C, CHR ''f'']
      else if c = CHR 0x0A then [CHR 0x5C, CHR ''n'']
      else if c = CHR 0x0D then [CHR 0x5C, CHR ''r'']
      else if c = CHR 0x09 then [CHR 0x5C, CHR ''t'']
      else if (of_char c :: nat) < 32
        then [CHR 0x5C, CHR ''u'', CHR ''0'', CHR ''0'',
              hex_digit False (of_char c div 16), hex_digit False (of_char c mod 16)]
      else [c])"

definition json_quote :: "string \<Rightarrow> string" where
  "json_quote s = CHR 0x22 # concat (map json_escape s) @ [CHR 0x22]"

text \<open>The text of a value; \<open>None\<close> where \<open>JSON.stringify\<close> gives \<open>undefined\<close>. A property
  whose value is \<open>undefined\<close> is left out of an object; an \<open>undefined\<close> element of an array
  is written \<open>null\<close>.\<close>

fun json_text :: "jsval \<Rightarrow> string option" where
  "json_text JUndefined = None"
| "json_text JNull = Some ''null''"
| "json_text (JBool b) = Some (if b then ''true'' else ''false'')"
| "json_text (JNum n) = Some (show_int n)"
| "json_text (JStr s) = Some (json_quote s)"
| "json_text (JArr xs) =
     Some (''['' @ join_with '',''
        (map (\<lambda>x. case json_text x of None \<Rightarrow> ''null'' | Some t \<Rightarrow> t) xs) @ '']'')"
| "json_text (JObj kvs) =
     Some (''{'' @ join_with '',''
        (concat (map (\<lambda>(k, v). case json_text v of None \<Rightarrow> []
                                | Some t \<Rightarrow> [json_quote k @ '':'' @ t]) kvs)) @ ''}'')"

definition JSON_stringify :: "jsval \<Rightarrow> jsval" where
  "JSON_stringify v = (case json_text v of None \<Rightarrow> JUndefined | Some t \<Rightarrow> JStr t)"

subsection \<open>qs.stringify\<close>

text \<open>
  The query-string library is a dependency of the adapter. Its \<open>stringify\<close> with default
  options walks the object in key order, writes a scalar as \<open>key=value\<close>, a nested
  value under \<open>key[sub]\<close>, an array element under \<open>key[index]\<close>, \<open>null\<close> as \<open>key=\<close>, and
  leaves \<open>undefined\<close> out; the pairs are joined with an ampersand. With the option
  \<open>encode\<close> (the default) keys and values are percent-encoded; with \<open>encode: false\<close> they
  are written as they are. Anything that is not an object gives the empty string.
\<close>

definition url_encode_char :: "char \<Rightarrow> string" where
  "url_encode_char c =
     (let n = (of_char c :: nat) in
      if c = CHR ''-'' \<or> c = CHR ''.'' \<or> c = CHR ''_'' \<or> c = CHR ''~''
         \<or> (48 \<le> n \<and> n \<le> 57) \<or> (65 \<le> n \<and> n \<le> 90) \<or> (97 \<le> n \<and> n \<le> 122)
      then [c]
      else if n < 128 then [CHR ''%'', hex_digit True (n div 16), hex_digit True (n mod 16)]
      else [CHR ''%'', hex_digit True ((192 + n div 64) div 16), hex_digit True ((192 + n div 64) mod 16),
            CHR ''%'', hex_digit True ((128 + n mod 64) div 16), hex_digit True ((128 + n mod 64) mod 16)])"

definition url_encode :: "string \<Rightarrow> string" where
  "url_encode s = concat (map url_encode_char s)"

definition qs_enc :: "bool \<Rightarrow> string \<Rightarrow> string" where
  "qs_enc encode s = (if encode then url_encode s else s)"

function qs_pairs :: "bool \<Rightarrow> jsval \<Rightarrow> string \<Rightarrow> string list" where
  "qs_pairs encode JUndefined prefix = []"
| "qs_pairs encode JNull prefix = [qs_enc encode prefix @ ''='']"
| "qs_pairs encode (JBool b) prefix =
     [qs_enc encode prefix @ ''='' @ qs_enc encode (js_to_string (JBool b))]"
| "qs_pairs encode (JNum n) prefix =
     [qs_enc encode prefix @ ''='' @ qs_enc encode (js_to_string (JNum n))]"
| "qs_pairs encode (JStr s) prefix = [qs_enc encode prefix @ ''='' @ qs_enc encode s]"
| "qs_pairs encode (JArr xs) prefix =
     concat (map (\<lambda>(i, x). qs_pairs encode x (prefix @ ''['' @ show_nat i @ '']''))
                 (zip [0..<length xs] xs))"
| "qs_pairs encode (JObj kvs) prefix =
     concat (map (\<lambda>(k, v). qs_pairs encode v (prefix @ ''['' @ k @ '']'')) kvs)"
  by pat_completeness auto
termination
proof (relation "measure (\<lambda>(encode, v, prefix). size v)")
  show "wf (measure (\<lambda>(encode, v, prefix). size v))"
    by simp
next
  fix encode :: bool and xs :: "jsval list" and prefix :: string and p i x
  assume "p \<in> set (zip [0..<length xs] xs)" and "(i, x) = p"
  then have "x \<in> set xs"
    by (auto dest: set_zip_rightD)
  then have "size x < Suc (size_list size xs)"
    by (induction xs) auto
  then show "((encode, x, prefix @ ''['' @ show_nat i @ '']''), encode, JArr xs, prefix)
      \<in> measure (\<lambda>(encode, v, prefix). size v)"
    by simp
next
  fix encode :: bool and kvs :: "(string \<times> jsval) list" and prefix :: string and p k v
  assume "p \<in> set kvs" and "(k, v) = p"
  then have "(k, v) \<in> set kvs"
    by simp
  then have "size v < Suc (size_list (size_prod (\<lambda>_. 0) size) kvs)"
    by (induction kvs) auto
  then show "((encode, v, prefix @ ''['' @ k @ '']''), encode, JObj kvs, prefix)
      \<in> measure (\<lambda>(encode, v, prefix). size v)"
    by simp
qed

definition qs_stringify :: "bool \<Rightarrow> jsval \<Rightarrow> string" where
  "qs_stringify encode obj =
     (case obj of
        JObj kvs \<Rightarrow> join_with ''&'' (concat (map (\<lambda>(k, v). qs_pairs encode v k) kvs))
      | JArr xs \<Rightarrow>
          join_with ''&'' (concat (map (\<lambda>(i, x). qs_pairs encode x (show_nat i))
                                       (zip [0..<length xs] xs)))
      | _ \<Rightarrow> [])"

section \<open>The definition mapper\<close>

text \<open>
  The logical API definition that the caller hands to \<open>constructAPIDef\<close>,
  \<open>createAPIDef\<close> and \<open>updateAPIDef\<close>. A field that the caller left out is
  \<open>JUndefined\<close>.
\<close>

record apiDef =
  name :: jsval
  description :: jsval
  rootContext :: jsval
  version :: jsval
  swaggerSpec :: jsval
  tags :: jsval
  maxTps :: jsval
  visibility :: jsval
  backend :: jsval
  mediationPolicies :: jsval
  apiProperties :: jsval
  cors :: jsval

text \<open>
  Modelled from the spec: \<open>utils.renderError\<close> lives in src/utils/utils.js, which is not
  among the sources. The spec calls it the error-logging routine that renders a failure
  before it is propagated. Its effect is kept as a log of the errors it was called with;
  what it returns matters in \<open>createAPIDef\<close> only and is a parameter there.
\<close>

definition renderError :: "jsval \<Rightarrow> jsval list \<Rightarrow> jsval list" where
  "renderError err log = log @ [err]"

text \<open>Lines 163 to 180: the local variables \<open>backendBaseUrl\<close> and \<open>backendType\<close>, both
  \<open>undefined\<close> until assigned.\<close>

definition backend_params :: "jsval \<Rightarrow> jsval + (jsval \<times> jsval)" where
  "backend_params b =
     thenJ (get_prop b ''http'') (\<lambda>http.
       if truthy http then
         thenJ (get_prop http ''baseUrl'') (\<lambda>baseUrl.
           Inr (if truthy baseUrl then baseUrl else JUndefined, JStr ''HTTP''))
       else
         thenJ (get_prop b ''jms'') (\<lambda>jms.
           if truthy jms then
             thenJ (get_prop jms ''destination'') (\<lambda>destination.
               if truthy destination then
                 thenJ (get_prop jms ''parameters'') (\<lambda>parameters.
                   Inr (JStr (js_join ''?''
                          [JStr (js_join ''/'' [JStr ''jms:'', destination]),
                           JStr (qs_stringify False parameters)]),
                        JStr ''HTTP''))
               else Inr (JUndefined, JStr ''HTTP''))
           else Inr (JUndefined, JUndefined)))"

text \<open>Lines 182 to 194.\<close>

definition mediation_policies :: "jsval \<Rightarrow> jsval + jsval list" where
  "mediation_policies mp =
     (if truthy mp then
        thenJ (get_prop mp ''in'') (\<lambda>pin.
        thenJ (get_prop mp ''out'') (\<lambda>pout.
        thenJ (get_prop mp ''fault'') (\<lambda>pfault.
          Inr ((if truthy pin then [JObj [(''name'', pin), (''type'', JStr ''in'')]] else [])
             @ (if truthy pout then [JObj [(''name'', pout), (''type'', JStr ''out'')]] else [])
             @ (if truthy pfault then [JObj [(''name'', pfault), (''type'', JStr ''fault'')]]
                else [])))))
      else Inr [])"

text \<open>Line 229.\<close>

definition additional_properties :: "jsval \<Rightarrow> jsval + jsval" where
  "additional_properties p =
     (if truthy p then
        thenJ (Object_keys p) (\<lambda>ks. Inr (if length ks > 0 then p else JUndefined))
      else Inr JUndefined)"

text \<open>Lines 233 to 236: \<open>(spec.info && spec.info.contact && spec.info.contact.k) ?
  spec.info.contact.k : undefined\<close>.\<close>

definition contact_field :: "jsval \<Rightarrow> string \<Rightarrow> jsval + jsval" where
  "contact_field spec k =
     thenJ (get_prop spec ''info'') (\<lambda>info.
       if truthy info then
         thenJ (get_prop info ''contact'') (\<lambda>contact.
           if truthy contact then
             thenJ (get_prop contact k) (\<lambda>v. Inr (if truthy v then v else JUndefined))
           else Inr JUndefined)
       else Inr JUndefined)"

definition defaultAllowHeaders :: jsval where
  "defaultAllowHeaders =
     JArr [JStr ''Authorization'', JStr ''Access-Control-Allow-Origin'', JStr ''Content-Type'',
           JStr ''SOAPAction'']"

definition defaultAllowMethods :: jsval where
  "defaultAllowMethods =
     JArr [JStr ''GET'', JStr ''PUT'', JStr ''POST'', JStr ''DELETE'', JStr ''PATCH'',
           JStr ''OPTIONS'']"

definition constructCorsConfiguration :: "apiDef \<Rightarrow> jsval + jsval" where
  "constructCorsConfiguration d =
     thenJ (get_prop (cors d) ''origins'') (\<lambda>origins.
     thenJ (get_prop (cors d) ''credentials'') (\<lambda>credentials.
     thenJ (get_prop (cors d) ''headers'') (\<lambda>headers.
     thenJ (get_prop (cors d) ''methods'') (\<lambda>methods.
       Inr (JObj
         [(''corsConfigurationEnabled'', JBool True),
          (''accessControlAllowOrigins'', js_or origins (JArr [JStr ''*''])),
          (''accessControlAllowCredentials'', js_or credentials (JBool False)),
          (''accessControlAllowHeaders'', js_or headers defaultAllowHeaders),
          (''accessControlAllowMethods'', js_or methods defaultAllowMethods)])))))"

text \<open>Lines 215 to 225: the object that is serialised into \<open>endpointConfig\<close>.\<close>

definition endpoint_config :: "jsval \<Rightarrow> jsval \<Rightarrow> jsval" where
  "endpoint_config backendBaseUrl endpointType =
     JObj
       [(''production_endpoints'', JObj [(''url'', backendBaseUrl), (''config'', JNull)]),
        (''sandbox_endpoints'', JObj [(''url'', backendBaseUrl), (''config'', JNull)]),
        (''endpoint_type'', if truthy endpointType then endpointType else JStr ''http'')]"

text \<open>Lines 196 to 238: the object literal \<open>wso2ApiDefinition\<close>, as the list of its
  properties; the arguments after \<open>apiId\<close> are the values computed for it.\<close>

definition wso2ApiDefinition ::
  "jsval \<Rightarrow> jsval \<Rightarrow> apiDef \<Rightarrow> jsval \<Rightarrow> jsval \<Rightarrow> jsval \<Rightarrow> jsval list \<Rightarrow> jsval list \<Rightarrow> jsval
   \<Rightarrow> jsval \<Rightarrow> jsval \<Rightarrow> jsval \<Rightarrow> jsval \<Rightarrow> jsval \<Rightarrow> (string \<times> jsval) list" where
  "wso2ApiDefinition user gatewayEnv d apiId backendBaseUrl backendType sequences ts
       endpointType additionalProperties businessOwnerEmail technicalOwnerEmail technicalOwner
       businessOwner =
     [(''id'', apiId),
      (''name'', name d),
      (''description'', description d),
      (''context'', rootContext d),
      (''version'', version d),
      (''provider'', user),
      (''apiDefinition'', JSON_stringify (swaggerSpec d)),
      (''status'', JStr ''CREATED''),
      (''isDefaultVersion'', JBool False),
      (''type'', backendType),
      (''transport'', JArr [JStr ''https'']),
      (''tags'', JArr (ts @ [JStr ''serverless-wso2-apim''])),
      (''tiers'', JArr [JStr ''Unlimited'']),
      (''maxTps'', JObj
         [(''sandbox'', if truthy (maxTps d) then maxTps d else JUndefined),
          (''production'', if truthy (maxTps d) then maxTps d else JUndefined)]),
      (''visibility'', visibility d),
      (''endpointConfig'', JSON_stringify (endpoint_config backendBaseUrl endpointType)),
      (''endpointSecurity'', JNull),
      (''gatewayEnvironments'', gatewayEnv),
      (''sequences'', JArr sequences),
      (''additionalProperties'', additionalProperties),
      (''subscriptionAvailability'', JStr ''current_tenant''),
      (''subscriptionAvailableTenants'', JArr []),
      (''businessInformation'', JObj
         [(''businessOwnerEmail'', businessOwnerEmail),
          (''technicalOwnerEmail'', technicalOwnerEmail),
          (''technicalOwner'', technicalOwner),
          (''businessOwner'', businessOwner)])]"

text \<open>The body of the \<open>try\<close> block of \<open>constructAPIDef\<close>, in the order in which the
  source evaluates it. The assignment to \<open>corsConfiguration\<close> adds the property after
  all the others.\<close>

definition constructAPIDef_try :: "jsval \<Rightarrow> jsval \<Rightarrow> apiDef \<Rightarrow> jsval \<Rightarrow> jsval + jsval" where
  "constructAPIDef_try user gatewayEnv d apiId =
     thenJ (backend_params (backend d)) (\<lambda>(backendBaseUrl, backendType).
     thenJ (mediation_policies (mediationPolicies d)) (\<lambda>mediationPolicies.
     thenJ (spread (tags d)) (\<lambda>ts.
     thenJ (get_prop (backend d) ''endpointType'') (\<lambda>endpointType.
     thenJ (additional_properties (apiProperties d)) (\<lambda>additionalProperties.
     thenJ (contact_field (swaggerSpec d) ''email'') (\<lambda>businessOwnerEmail.
     thenJ (contact_field (swaggerSpec d) ''email'') (\<lambda>technicalOwnerEmail.
     thenJ (contact_field (swaggerSpec d) ''name'') (\<lambda>technicalOwner.
     thenJ (contact_field (swaggerSpec d) ''name'') (\<lambda>businessOwner.
     let fields = wso2ApiDefinition user gatewayEnv d apiId backendBaseUrl backendType
                    mediationPolicies ts endpointType additionalProperties businessOwnerEmail
                    technicalOwnerEmail technicalOwner businessOwner
     in
       if truthy (cors d) then
         thenJ (constructCorsConfiguration d) (\<lambda>c.
           Inr (JObj (fields @ [(''corsConfiguration'', c)])))
       else Inr (JObj fields))))))))))"

text \<open>
  \<open>constructAPIDef\<close> itself: the value it returns and the log afterwards. An exception
  in the body is handed to \<open>renderError\<close> and the function then returns \<open>undefined\<close>.
\<close>

definition constructAPIDef ::
  "jsval \<Rightarrow> jsval \<Rightarrow> apiDef \<Rightarrow> jsval \<Rightarrow> jsval list \<Rightarrow> jsval \<times> jsval list" where
  "constructAPIDef user gatewayEnv d apiId log =
     (case constructAPIDef_try user gatewayEnv d apiId of
        Inr result \<Rightarrow> (result, log)
      | Inl err \<Rightarrow> (JUndefined, renderError err log))"

section \<open>The resource operations\<close>

text \<open>
  Every operation issues one HTTP request through axios and wraps it as
  \<open>new Promise((resolve, reject) => axios.m(...).then(onFulfilled).catch(onRejected))\<close>.
  The request is represented by how the promise of axios settles: \<open>Inr res\<close> when it is
  fulfilled with the response \<open>res\<close>, \<open>Inl err\<close> when it is rejected with \<open>err\<close>. The
  promise of the operation is resolved, rejected, or left pending when \<open>onRejected\<close>
  throws before it reaches \<open>reject\<close>. \<open>onRejected\<close> also receives what \<open>onFulfilled\<close>
  throws.
\<close>

datatype settlement = Resolved jsval | Rejected jsval | Pending

definition then_catch ::
  "(jsval \<Rightarrow> jsval + jsval) \<Rightarrow> (jsval \<Rightarrow> jsval list \<Rightarrow> (jsval + jsval) \<times> jsval list)
   \<Rightarrow> jsval + jsval \<Rightarrow> jsval list \<Rightarrow> settlement \<times> jsval list" where
  "then_catch onFulfilled onRejected outcome log =
     (case thenJ outcome onFulfilled of
        Inr v \<Rightarrow> (Resolved v, log)
      | Inl err \<Rightarrow>
          (case onRejected err log of
             (Inr r, log') \<Rightarrow> (Rejected r, log')
           | (Inl thrown, log') \<Rightarrow> (Pending, log')))"

text \<open>\<open>utils.renderError(err); reject(err);\<close>\<close>

definition render_and_reject :: "jsval \<Rightarrow> jsval list \<Rightarrow> (jsval + jsval) \<times> jsval list" where
  "render_and_reject err log = (Inr err, renderError err log)"

text \<open>\<open>err.response.data.code\<close>\<close>

definition vendor_code :: "jsval \<Rightarrow> jsval + jsval" where
  "vendor_code err =
     thenJ (get_prop err ''response'') (\<lambda>response.
     thenJ (get_prop response ''data'') (\<lambda>data. get_prop data ''code''))"

text \<open>\<open>v == 'ddd'\<close> where the string literal is the decimal numeral of \<open>n\<close>: a string is
  compared as a string, a number and a boolean as numbers, an array through its string;
  \<open>undefined\<close>, \<open>null\<close> and plain objects are never equal to it.\<close>

fun loose_eq_numeral :: "jsval \<Rightarrow> nat \<Rightarrow> bool" where
  "loose_eq_numeral JUndefined n = False"
| "loose_eq_numeral JNull n = False"
| "loose_eq_numeral (JBool b) n = ((if b then 1 else 0) = n)"
| "loose_eq_numeral (JNum k) n = (k = int n)"
| "loose_eq_numeral (JStr s) n = (s = show_nat n)"
| "loose_eq_numeral (JArr xs) n = (js_to_string (JArr xs) = show_nat n)"
| "loose_eq_numeral (JObj kvs) n = False"

text \<open>\<open>if (err.response.data.code != 'ddd') { utils.renderError(err); } reject(err);\<close>\<close>

definition reject_unless_code :: "nat \<Rightarrow> jsval \<Rightarrow> jsval list \<Rightarrow> (jsval + jsval) \<times> jsval list" where
  "reject_unless_code n err log =
     (case vendor_code err of
        Inl thrown \<Rightarrow> (Inl thrown, log)
      | Inr code \<Rightarrow> (Inr err, if \<not> loose_eq_numeral code n then renderError err log else log))"

text \<open>The connection settings; only the fields that reach the mapper matter below.\<close>

record wso2APIM =
  host :: jsval
  port :: jsval
  versionSlug :: jsval
  user :: jsval
  pass :: jsval
  gatewayEnv :: jsval

definition registerClient :: "jsval + jsval \<Rightarrow> jsval list \<Rightarrow> settlement \<times> jsval list" where
  "registerClient = then_catch (\<lambda>res. get_prop res ''data'') render_and_reject"

definition generateToken :: "jsval + jsval \<Rightarrow> jsval list \<Rightarrow> settlement \<times> jsval list" where
  "generateToken =
     then_catch
       (\<lambda>res. thenJ (get_prop res ''data'') (\<lambda>data.
               thenJ (get_prop data ''access_token'') (\<lambda>access_token.
                 Inr (JObj [(''accessToken'', access_token)]))))
       render_and_reject"

definition isAPIDeployed :: "jsval + jsval \<Rightarrow> jsval list \<Rightarrow> settlement \<times> jsval list" where
  "isAPIDeployed = then_catch (\<lambda>res. get_prop res ''data'') render_and_reject"

definition isCertUploaded :: "jsval + jsval \<Rightarrow> jsval list \<Rightarrow> settlement \<times> jsval list" where
  "isCertUploaded = then_catch (\<lambda>res. get_prop res ''data'') (reject_unless_code 404)"

text \<open>\<open>createAPIDef\<close> first maps the definition (no \<open>apiId\<close>), then posts it. Its
  \<open>onRejected\<close> is \<open>reject(utils.renderError(err))\<close>; \<open>rendered\<close> is what
  \<open>utils.renderError\<close> returns.\<close>

definition createAPIDef ::
  "(jsval \<Rightarrow> jsval) \<Rightarrow> 'a wso2APIM_scheme \<Rightarrow> apiDef \<Rightarrow> jsval + jsval \<Rightarrow> jsval list
   \<Rightarrow> settlement \<times> jsval list" where
  "createAPIDef rendered cfg d outcome log =
     (let (data, log1) = constructAPIDef (user cfg) (gatewayEnv cfg) d JUndefined log in
      then_catch
        (\<lambda>res. thenJ (get_prop res ''data'') (\<lambda>rd.
                thenJ (get_prop rd ''id'') (\<lambda>apiId.
                thenJ (get_prop rd ''name'') (\<lambda>apiName.
                thenJ (get_prop rd ''context'') (\<lambda>apiContext.
                thenJ (get_prop rd ''status'') (\<lambda>apiStatus.
                  Inr (JObj [(''apiId'', apiId), (''apiName'', apiName),
                             (''apiContext'', apiContext), (''apiStatus'', apiStatus)])))))))
        (\<lambda>err lg. (Inr (rendered err), renderError err lg))
        outcome log1)"

definition publishAPIDef :: "jsval + jsval \<Rightarrow> jsval list \<Rightarrow> settlement \<times> jsval list" where
  "publishAPIDef = then_catch Inr render_and_reject"

definition listInvokableAPIUrl :: "jsval + jsval \<Rightarrow> jsval list \<Rightarrow> settlement \<times> jsval list" where
  "listInvokableAPIUrl = then_catch (\<lambda>res. get_prop res ''data'') render_and_reject"

definition uploadCert :: "jsval + jsval \<Rightarrow> jsval list \<Rightarrow> settlement \<times> jsval list" where
  "uploadCert = then_catch Inr (reject_unless_code 409)"

definition updateAPIDef ::
  "'a wso2APIM_scheme \<Rightarrow> apiDef \<Rightarrow> jsval \<Rightarrow> jsval + jsval \<Rightarrow> jsval list
   \<Rightarrow> settlement \<times> jsval list" where
  "updateAPIDef cfg d apiId outcome log =
     (let (data, log1) = constructAPIDef (user cfg) (gatewayEnv cfg) d apiId log in
      then_catch (\<lambda>res. get_prop res ''data'') render_and_reject outcome log1)"

definition removeAPIDef :: "jsval + jsval \<Rightarrow> jsval list \<Rightarrow> settlement \<times> jsval list" where
  "removeAPIDef = then_catch (\<lambda>res. get_prop res ''data'') render_and_reject"

definition removeCert :: "jsval + jsval \<Rightarrow> jsval list \<Rightarrow> settlement \<times> jsval list" where
  "removeCert = then_catch Inr (reject_unless_code 404)"

definition updateCert :: "jsval + jsval \<Rightarrow> jsval list \<Rightarrow> settlement \<times> jsval list" where
  "updateCert = then_catch Inr render_and_reject"

definition listCertInfo :: "jsval + jsval \<Rightarrow> jsval list \<Rightarrow> settlement \<times> jsval list" where
  "listCertInfo = then_catch (\<lambda>res. get_prop res ''data'') render_and_reject"

section \<open>Vocabulary of the properties\<close>

text \<open>A well-formed logical definition: the backend descriptor is present, the tags are
  an array, the swagger specification is present.\<close>

definition well_formed :: "apiDef \<Rightarrow> bool" where
  "well_formed d \<longleftrightarrow> \<not> nullish (backend d) \<and> is_array (tags d) \<and> \<not> nullish (swaggerSpec d)"





text \<open>Sample inputs.\<close>

definition sample_def :: apiDef where
  "sample_def =
     \<lparr> name = JStr ''orders'', description = JStr ''Orders API'', rootContext = JStr ''/orders'',
       version = JStr ''v1'',
       swaggerSpec = JObj [(''info'', JObj [(''contact'', JObj [(''email'', JStr ''a@b.c'')])])],
       tags = JArr [JStr ''sales''], maxTps = JUndefined, visibility = JStr ''PUBLIC'',
       backend = JObj [(''http'', JObj [(''baseUrl'', JStr ''https://backend/api'')])],
       mediationPolicies = JUndefined, apiProperties = JUndefined, cors = JUndefined \<rparr>"


definition sample_error :: "jsval \<Rightarrow> jsval" where
  "sample_error code =
     JObj [(''response'', JObj [(''status'', code), (''data'', JObj [(''code'', code)])])]"

section \<open>Auxiliary facts\<close>

declare show_nat.simps [simp del]

lemma thenJ_Inr: "thenJ (Inr v) f = f v"
  by (simp add: thenJ_def)

lemma thenJ_Inl: "thenJ (Inl e) f = Inl e"
  by (simp add: thenJ_def)

lemma truthy_not_nullish: "truthy v \<Longrightarrow> \<not> nullish v"
  by (cases v) simp_all

lemma get_prop_total: "\<not> nullish v \<Longrightarrow> \<exists>w. get_prop v k = Inr w"
  by (cases v) simp_all

lemma backend_params_total:
  assumes "\<not> nullish b"
  shows "\<exists>u t. backend_params b = Inr (u, t)"
proof -
  obtain http where h: "get_prop b ''http'' = Inr http"
    using assms get_prop_total by blast
  obtain jms where j: "get_prop b ''jms'' = Inr jms"
    using assms get_prop_total by blast
  show ?thesis
  proof (cases "truthy http")
    case True
    then obtain baseUrl where "get_prop http ''baseUrl'' = Inr baseUrl"
      using get_prop_total truthy_not_nullish by blast
    with h True show ?thesis
      by (simp add: backend_params_def thenJ_Inr)
  next
    case False
    show ?thesis
    proof (cases "truthy jms")
      case True
      then obtain dest params where
        "get_prop jms ''destination'' = Inr dest" "get_prop jms ''parameters'' = Inr params"
        using get_prop_total truthy_not_nullish by blast
      with h j False True show ?thesis
        by (simp add: backend_params_def thenJ_Inr)
    next
      case nj: False
      with h j False show ?thesis
        by (simp add: backend_params_def thenJ_Inr)
    qed
  qed
qed

lemma mediation_policies_total: "\<exists>ms. mediation_policies mp = Inr ms"
proof (cases "truthy mp")
  case True
  then have nn: "\<not> nullish mp"
    by (rule truthy_not_nullish)
  obtain a b c where "get_prop mp ''in'' = Inr a" "get_prop mp ''out'' = Inr b"
    "get_prop mp ''fault'' = Inr c"
    using get_prop_total [OF nn] by metis
  with True show ?thesis
    by (simp add: mediation_policies_def thenJ_Inr)
next
  case False
  then show ?thesis
    by (simp add: mediation_policies_def)
qed

lemma Object_keys_total: "\<not> nullish v \<Longrightarrow> \<exists>ks. Object_keys v = Inr ks"
  by (cases v) simp_all

lemma additional_properties_total: "\<exists>a. additional_properties p = Inr a"
proof (cases "truthy p")
  case True
  then obtain ks where "Object_keys p = Inr ks"
    using Object_keys_total truthy_not_nullish by blast
  with True show ?thesis
    by (simp add: additional_properties_def thenJ_Inr)
next
  case False
  then show ?thesis
    by (simp add: additional_properties_def)
qed

lemma contact_field_total:
  assumes "\<not> nullish spec"
  shows "\<exists>v. contact_field spec k = Inr v"
proof -
  obtain info where i: "get_prop spec ''info'' = Inr info"
    using assms get_prop_total by blast
  show ?thesis
  proof (cases "truthy info")
    case True
    then obtain contact where c: "get_prop info ''contact'' = Inr contact"
      using get_prop_total truthy_not_nullish by blast
    show ?thesis
    proof (cases "truthy contact")
      case tc: True
      then obtain v where "get_prop contact k = Inr v"
        using get_prop_total truthy_not_nullish by blast
      with i c True tc show ?thesis
        by (simp add: contact_field_def thenJ_Inr)
    next
      case False
      with i c True show ?thesis
        by (simp add: contact_field_def thenJ_Inr)
    qed
  next
    case False
    with i show ?thesis
      by (simp add: contact_field_def thenJ_Inr)
  qed
qed

lemma cors_configuration_value:
  assumes "truthy (cors d)"
  shows "\<exists>origins credentials headers methods.
     get_prop (cors d) ''origins'' = Inr origins \<and>
     get_prop (cors d) ''credentials'' = Inr credentials \<and>
     get_prop (cors d) ''headers'' = Inr headers \<and>
     get_prop (cors d) ''methods'' = Inr methods \<and>
     constructCorsConfiguration d = Inr (JObj
         [(''corsConfigurationEnabled'', JBool True),
          (''accessControlAllowOrigins'', js_or origins (JArr [JStr ''*''])),
          (''accessControlAllowCredentials'', js_or credentials (JBool False)),
          (''accessControlAllowHeaders'', js_or headers defaultAllowHeaders),
          (''accessControlAllowMethods'', js_or methods defaultAllowMethods)])"
proof -
  have nn: "\<not> nullish (cors d)"
    using assms by (rule truthy_not_nullish)
  obtain a b c e where "get_prop (cors d) ''origins'' = Inr a"
    "get_prop (cors d) ''credentials'' = Inr b" "get_prop (cors d) ''headers'' = Inr c"
    "get_prop (cors d) ''methods'' = Inr e"
    using get_prop_total [OF nn] by metis
  then show ?thesis
    by (simp add: constructCorsConfiguration_def thenJ_Inr)
qed


lemma constructAPIDef_try_shape:
  assumes "well_formed d"
  shows "\<exists>u t ms ts et ap em nm.
     backend_params (backend d) = Inr (u, t) \<and>
     mediation_policies (mediationPolicies d) = Inr ms \<and>
     tags d = JArr ts \<and>
     get_prop (backend d) ''endpointType'' = Inr et \<and>
     additional_properties (apiProperties d) = Inr ap \<and>
     contact_field (swaggerSpec d) ''email'' = Inr em \<and>
     contact_field (swaggerSpec d) ''name'' = Inr nm \<and>
     constructAPIDef_try usr env d apiId =
       (if truthy (cors d) then
          thenJ (constructCorsConfiguration d) (\<lambda>c.
            Inr (JObj (wso2ApiDefinition usr env d apiId u t ms ts et ap em em nm nm
                       @ [(''corsConfiguration'', c)])))
        else Inr (JObj (wso2ApiDefinition usr env d apiId u t ms ts et ap em em nm nm)))"
proof -
  from assms have nb: "\<not> nullish (backend d)" and ns: "\<not> nullish (swaggerSpec d)"
    and arr: "is_array (tags d)"
    by (simp_all add: well_formed_def)
  obtain u t where bp: "backend_params (backend d) = Inr (u, t)"
    using backend_params_total [OF nb] by blast
  obtain ms where mp: "mediation_policies (mediationPolicies d) = Inr ms"
    using mediation_policies_total by blast
  obtain ts where tg: "tags d = JArr ts"
    using arr by (cases "tags d") simp_all
  obtain et where et: "get_prop (backend d) ''endpointType'' = Inr et"
    using get_prop_total [OF nb] by blast
  obtain ap where ap: "additional_properties (apiProperties d) = Inr ap"
    using additional_properties_total by blast
  obtain em where em: "contact_field (swaggerSpec d) ''email'' = Inr em"
    using contact_field_total [OF ns] by blast
  obtain nm where nm: "contact_field (swaggerSpec d) ''name'' = Inr nm"
    using contact_field_total [OF ns] by blast
  have "constructAPIDef_try usr env d apiId =
       (if truthy (cors d) then
          thenJ (constructCorsConfiguration d) (\<lambda>c.
            Inr (JObj (wso2ApiDefinition usr env d apiId u t ms ts et ap em em nm nm
                       @ [(''corsConfiguration'', c)])))
        else Inr (JObj (wso2ApiDefinition usr env d apiId u t ms ts et ap em em nm nm)))"
    by (simp add: constructAPIDef_try_def bp mp tg et ap em nm thenJ_Inr)
  with bp mp tg et ap em nm show ?thesis
    by blast
qed

lemma constructAPIDef_shape:
  assumes "well_formed d"
  shows "\<exists>u t ms ts et ap em nm.
     backend_params (backend d) = Inr (u, t) \<and>
     mediation_policies (mediationPolicies d) = Inr ms \<and>
     tags d = JArr ts \<and>
     get_prop (backend d) ''endpointType'' = Inr et \<and>
     constructAPIDef usr env d apiId log =
       (JObj (wso2ApiDefinition usr env d apiId u t ms ts et ap em em nm nm
              @ (if truthy (cors d)
                 then case constructCorsConfiguration d of Inr c \<Rightarrow> [(''corsConfiguration'', c)]
                      | Inl e \<Rightarrow> []
                 else [])), log)"
proof -
  obtain u t ms ts et ap em nm where
    f: "backend_params (backend d) = Inr (u, t)"
       "mediation_policies (mediationPolicies d) = Inr ms"
       "tags d = JArr ts"
       "get_prop (backend d) ''endpointType'' = Inr et"
    and r: "constructAPIDef_try usr env d apiId =
       (if truthy (cors d) then
          thenJ (constructCorsConfiguration d) (\<lambda>c.
            Inr (JObj (wso2ApiDefinition usr env d apiId u t ms ts et ap em em nm nm
                       @ [(''corsConfiguration'', c)])))
        else Inr (JObj (wso2ApiDefinition usr env d apiId u t ms ts et ap em em nm nm)))"
    using constructAPIDef_try_shape [OF assms, of usr env apiId] by blast
  have "constructAPIDef usr env d apiId log =
       (JObj (wso2ApiDefinition usr env d apiId u t ms ts et ap em em nm nm
              @ (if truthy (cors d)
                 then case constructCorsConfiguration d of Inr c \<Rightarrow> [(''corsConfiguration'', c)]
                      | Inl e \<Rightarrow> []
                 else [])), log)"
  proof (cases "truthy (cors d)")
    case True
    then obtain c where "constructCorsConfiguration d = Inr c"
      using cors_configuration_value by blast
    with True r show ?thesis
      by (simp add: constructAPIDef_def thenJ_Inr)
  next
    case False
    with r show ?thesis
      by (simp add: constructAPIDef_def)
  qed
  with f show ?thesis
    by blast
qed

lemma fixed_fields:
  "get_prop (JObj (wso2ApiDefinition usr env d apiId u t ms ts et ap e1 e2 n1 n2 @ extra)) ''status''
     = Inr (JStr ''CREATED'')"
  "get_prop (JObj (wso2ApiDefinition usr env d apiId u t ms ts et ap e1 e2 n1 n2 @ extra)) ''isDefaultVersion''
     = Inr (JBool False)"
  "get_prop (JObj (wso2ApiDefinition usr env d apiId u t ms ts et ap e1 e2 n1 n2 @ extra)) ''transport''
     = Inr (JArr [JStr ''https''])"
  "get_prop (JObj (wso2ApiDefinition usr env d apiId u t ms ts et ap e1 e2 n1 n2 @ extra)) ''tiers''
     = Inr (JArr [JStr ''Unlimited''])"
  "get_prop (JObj (wso2ApiDefinition usr env d apiId u t ms ts et ap e1 e2 n1 n2 @ extra)) ''subscriptionAvailability''
     = Inr (JStr ''current_tenant'')"
  "get_prop (JObj (wso2ApiDefinition usr env d apiId u t ms ts et ap e1 e2 n1 n2 @ extra)) ''subscriptionAvailableTenants''
     = Inr (JArr [])"
  "get_prop (JObj (wso2ApiDefinition usr env d apiId u t ms ts et ap e1 e2 n1 n2 @ extra)) ''tags''
     = Inr (JArr (ts @ [JStr ''serverless-wso2-apim'']))"
  "get_prop (JObj (wso2ApiDefinition usr env d apiId u t ms ts et ap e1 e2 n1 n2 @ extra)) ''type''
     = Inr t"
  "get_prop (JObj (wso2ApiDefinition usr env d apiId u t ms ts et ap e1 e2 n1 n2 @ extra)) ''endpointConfig''
     = Inr (JSON_stringify (endpoint_config u et))"
  by (simp_all add: wso2ApiDefinition_def)

lemma corsConfiguration_absent:
  "map_of (wso2ApiDefinition usr env d apiId u t ms ts et ap e1 e2 n1 n2) ''corsConfiguration'' = None"
  "map fst (wso2ApiDefinition usr env d apiId u t ms ts et ap e1 e2 n1 n2) =
     [''id'', ''name'', ''description'', ''context'', ''version'', ''provider'', ''apiDefinition'',
      ''status'', ''isDefaultVersion'', ''type'', ''transport'', ''tags'', ''tiers'', ''maxTps'',
      ''visibility'', ''endpointConfig'', ''endpointSecurity'', ''gatewayEnvironments'',
      ''sequences'', ''additionalProperties'', ''subscriptionAvailability'',
      ''subscriptionAvailableTenants'', ''businessInformation'']"
  by (simp_all add: wso2ApiDefinition_def)

section \<open>Properties of the definition mapper\<close>

text \<open>
  Claim C9. On a well-formed logical definition (backend descriptor present, tags an array,
  swagger specification present) \<open>constructAPIDef\<close> throws nothing and logs nothing: it
  leaves the log as it found it and returns an object with all the properties of the vendor
  definition, in the order of the source, followed by \<open>corsConfiguration\<close> exactly when a
  CORS block was given.
\<close>

theorem constructAPIDef_total:
  assumes "well_formed d"
  shows "\<exists>fields. constructAPIDef usr env d apiId log = (JObj fields, log) \<and>
     map fst fields =
       [''id'', ''name'', ''description'', ''context'', ''version'', ''provider'', ''apiDefinition'',
        ''status'', ''isDefaultVersion'', ''type'', ''transport'', ''tags'', ''tiers'', ''maxTps'',
        ''visibility'', ''endpointConfig'', ''endpointSecurity'', ''gatewayEnvironments'',
        ''sequences'', ''additionalProperties'', ''subscriptionAvailability'',
        ''subscriptionAvailableTenants'', ''businessInformation'']
       @ (if truthy (cors d) then [''corsConfiguration''] else [])"
proof -
  obtain u t ms ts et ap em nm where
    r: "constructAPIDef usr env d apiId log =
       (JObj (wso2ApiDefinition usr env d apiId u t ms ts et ap em em nm nm
              @ (if truthy (cors d)
                 then case constructCorsConfiguration d of Inr c \<Rightarrow> [(''corsConfiguration'', c)]
                      | Inl e \<Rightarrow> []
                 else [])), log)"
    using constructAPIDef_shape [OF assms, of usr env apiId log] by blast
  show ?thesis
  proof (cases "truthy (cors d)")
    case True
    then obtain c where "constructCorsConfiguration d = Inr c"
      using cors_configuration_value by blast
    with True r show ?thesis
      by (simp add: corsConfiguration_absent)
  next
    case False
    with r show ?thesis
      by (simp add: corsConfiguration_absent)
  qed
qed

theorem constructAPIDef_total_witness:
  "well_formed sample_def \<and>
   (\<exists>fields. constructAPIDef (JStr ''admin'') (JArr [JStr ''Production and Sandbox''])
       sample_def JUndefined [] = (JObj fields, []))"
proof -
  have wf: "well_formed sample_def"
    by (simp add: well_formed_def sample_def_def)
  show ?thesis
    using wf constructAPIDef_total [OF wf, of "JStr ''admin''"
        "JArr [JStr ''Production and Sandbox'']" JUndefined "[]"]
    by blast
qed

text \<open>
  Claim C7. On a well-formed logical definition the output has status \<open>CREATED\<close>,
  \<open>isDefaultVersion\<close> false, transport \<open>['https']\<close>, tiers \<open>['Unlimited']\<close>, subscription
  availability \<open>current_tenant\<close>, no tenants for subscription sharing, and the tags of the
  caller followed by the marker tag \<open>serverless-wso2-apim\<close>.
\<close>

theorem fixed_output_fields:
  assumes "well_formed d" and "tags d = JArr ts"
  shows "\<exists>out. constructAPIDef usr env d apiId log = (out, log) \<and>
     get_prop out ''status'' = Inr (JStr ''CREATED'') \<and>
     get_prop out ''isDefaultVersion'' = Inr (JBool False) \<and>
     get_prop out ''transport'' = Inr (JArr [JStr ''https'']) \<and>
     get_prop out ''tiers'' = Inr (JArr [JStr ''Unlimited'']) \<and>
     get_prop out ''subscriptionAvailability'' = Inr (JStr ''current_tenant'') \<and>
     get_prop out ''subscriptionAvailableTenants'' = Inr (JArr []) \<and>
     get_prop out ''tags'' = Inr (JArr (ts @ [JStr ''serverless-wso2-apim'']))"
proof -
  obtain u t ms ts' et ap em nm extra where
    tg: "tags d = JArr ts'" and
    r: "constructAPIDef usr env d apiId log =
       (JObj (wso2ApiDefinition usr env d apiId u t ms ts' et ap em em nm nm @ extra), log)"
    using constructAPIDef_shape [OF assms(1), of usr env apiId log] by blast
  let ?out = "JObj (wso2ApiDefinition usr env d apiId u t ms ts et ap em em nm nm @ extra)"
  from tg assms(2) have "ts' = ts"
    by simp
  with r have c: "constructAPIDef usr env d apiId log = (?out, log)"
    by simp
  show ?thesis
    apply (rule exI [of _ ?out])
    apply (intro conjI)
           apply (rule c)
          apply (rule fixed_fields)+
    done
qed


theorem fixed_output_fields_witness:
  "well_formed sample_def \<and> tags sample_def = JArr [JStr ''sales''] \<and>
   (\<exists>out. constructAPIDef (JStr ''admin'') (JArr [JStr ''Production and Sandbox''])
       sample_def JUndefined [] = (out, []) \<and>
     get_prop out ''status'' = Inr (JStr ''CREATED'') \<and>
     get_prop out ''isDefaultVersion'' = Inr (JBool False) \<and>
     get_prop out ''transport'' = Inr (JArr [JStr ''https'']) \<and>
     get_prop out ''tiers'' = Inr (JArr [JStr ''Unlimited'']) \<and>
     get_prop out ''subscriptionAvailability'' = Inr (JStr ''current_tenant'') \<and>
     get_prop out ''subscriptionAvailableTenants'' = Inr (JArr []) \<and>
     get_prop out ''tags'' = Inr (JArr [JStr ''sales'', JStr ''serverless-wso2-apim'']))"
proof -
  have wf: "well_formed sample_def"
    by (simp add: well_formed_def sample_def_def)
  have tg: "tags sample_def = JArr [JStr ''sales'']"
    by (simp add: sample_def_def)
  show ?thesis
    using wf tg fixed_output_fields [OF wf tg, of "JStr ''admin''"
        "JArr [JStr ''Production and Sandbox'']" JUndefined "[]"]
    by simp
qed

text \<open>
  Claim C10. On a well-formed logical definition the serialised \<open>endpointConfig\<close> carries
  one \<open>endpoint_type\<close>, next to the production and the sandbox endpoints: the
  \<open>endpointType\<close> of the backend descriptor when that is set (truthy), \<open>http\<close> otherwise,
  whatever the kind of the backend.
\<close>

theorem endpoint_type_mapping:
  assumes "well_formed d" and "get_prop (backend d) ''endpointType'' = Inr endpointType"
  shows "\<exists>out url. constructAPIDef usr env d apiId log = (out, log) \<and>
     get_prop out ''endpointConfig'' = Inr (JSON_stringify (JObj
       [(''production_endpoints'', JObj [(''url'', url), (''config'', JNull)]),
        (''sandbox_endpoints'', JObj [(''url'', url), (''config'', JNull)]),
        (''endpoint_type'', if truthy endpointType then endpointType else JStr ''http'')]))"
proof -
  obtain u t ms ts et ap em nm extra where
    e: "get_prop (backend d) ''endpointType'' = Inr et" and
    r: "constructAPIDef usr env d apiId log =
       (JObj (wso2ApiDefinition usr env d apiId u t ms ts et ap em em nm nm @ extra), log)"
    using constructAPIDef_shape [OF assms(1), of usr env apiId log] by blast
  from e assms(2) have "et = endpointType"
    by simp
  with r show ?thesis
    using fixed_fields(9) [of usr env d apiId u t ms ts endpointType ap em em nm nm extra]
    by (auto simp only: endpoint_config_def)
qed

theorem endpoint_type_mapping_witness:
  "well_formed sample_def \<and> get_prop (backend sample_def) ''endpointType'' = Inr JUndefined \<and>
   (\<exists>out url. constructAPIDef (JStr ''admin'') (JArr [JStr ''Production and Sandbox''])
       sample_def JUndefined [] = (out, []) \<and>
     get_prop out ''endpointConfig'' = Inr (JSON_stringify (JObj
       [(''production_endpoints'', JObj [(''url'', url), (''config'', JNull)]),
        (''sandbox_endpoints'', JObj [(''url'', url), (''config'', JNull)]),
        (''endpoint_type'', JStr ''http'')])))"
proof -
  have wf: "well_formed sample_def"
    by (simp add: well_formed_def sample_def_def)
  have et: "get_prop (backend sample_def) ''endpointType'' = Inr JUndefined"
    by (simp add: sample_def_def)
  show ?thesis
    using wf et endpoint_type_mapping [OF wf et, of "JStr ''admin''"
        "JArr [JStr ''Production and Sandbox'']" JUndefined "[]"]
    by simp
qed

lemma backend_params_http:
  assumes "get_prop b ''http'' = Inr http" and "truthy http"
    and "get_prop http ''baseUrl'' = Inr baseUrl"
  shows "backend_params b = Inr (if truthy baseUrl then baseUrl else JUndefined, JStr ''HTTP'')"
  using assms by (simp add: backend_params_def thenJ_Inr)




text \<open>
  Claim C5. For a well-formed logical definition with an HTTP backend that has a base URL,
  the declared type is \<open>HTTP\<close> and the base URL itself, unchanged, is the URL of both the
  production and the sandbox endpoint in the object that is serialised into
  \<open>endpointConfig\<close>.
\<close>

theorem http_backend_mapping:
  assumes "well_formed d"
    and "get_prop (backend d) ''http'' = Inr http" and "truthy http"
    and "get_prop http ''baseUrl'' = Inr baseUrl" and "truthy baseUrl"
  shows "\<exists>out endpoint_type. constructAPIDef usr env d apiId log = (out, log) \<and>
     get_prop out ''type'' = Inr (JStr ''HTTP'') \<and>
     get_prop out ''endpointConfig'' = Inr (JSON_stringify (JObj
       [(''production_endpoints'', JObj [(''url'', baseUrl), (''config'', JNull)]),
        (''sandbox_endpoints'', JObj [(''url'', baseUrl), (''config'', JNull)]),
        (''endpoint_type'', endpoint_type)]))"
proof -
  obtain u t ms ts et ap em nm extra where
    b: "backend_params (backend d) = Inr (u, t)" and
    r: "constructAPIDef usr env d apiId log =
       (JObj (wso2ApiDefinition usr env d apiId u t ms ts et ap em em nm nm @ extra), log)"
    using constructAPIDef_shape [OF assms(1), of usr env apiId log] by blast
  from b backend_params_http [OF assms(2-4)] assms(5) have ut: "u = baseUrl" "t = JStr ''HTTP''"
    by simp_all
  let ?out = "JObj (wso2ApiDefinition usr env d apiId baseUrl (JStr ''HTTP'') ms ts et ap em em nm nm
                    @ extra)"
  have "constructAPIDef usr env d apiId log = (?out, log)"
    using r ut by simp
  moreover have "get_prop ?out ''type'' = Inr (JStr ''HTTP'')"
    by (rule fixed_fields)
  moreover have "get_prop ?out ''endpointConfig'' = Inr (JSON_stringify (JObj
       [(''production_endpoints'', JObj [(''url'', baseUrl), (''config'', JNull)]),
        (''sandbox_endpoints'', JObj [(''url'', baseUrl), (''config'', JNull)]),
        (''endpoint_type'', if truthy et then et else JStr ''http'')]))"
    using fixed_fields(9) [of usr env d apiId baseUrl "JStr ''HTTP''" ms ts et ap em em nm nm extra]
    by (simp only: endpoint_config_def)
  ultimately show ?thesis
    by blast
qed

theorem http_backend_mapping_witness:
  "well_formed sample_def \<and>
   get_prop (backend sample_def) ''http'' = Inr (JObj [(''baseUrl'', JStr ''https://backend/api'')]) \<and>
   truthy (JObj [(''baseUrl'', JStr ''https://backend/api'')]) \<and>
   get_prop (JObj [(''baseUrl'', JStr ''https://backend/api'')]) ''baseUrl''
     = Inr (JStr ''https://backend/api'') \<and>
   truthy (JStr ''https://backend/api'') \<and>
   (\<exists>out endpoint_type. constructAPIDef (JStr ''admin'') (JArr [JStr ''Production and Sandbox''])
       sample_def JUndefined [] = (out, []) \<and>
     get_prop out ''type'' = Inr (JStr ''HTTP'') \<and>
     get_prop out ''endpointConfig'' = Inr (JSON_stringify (JObj
       [(''production_endpoints'',
           JObj [(''url'', JStr ''https://backend/api''), (''config'', JNull)]),
        (''sandbox_endpoints'',
           JObj [(''url'', JStr ''https://backend/api''), (''config'', JNull)]),
        (''endpoint_type'', endpoint_type)])))"
proof -
  have wf: "well_formed sample_def"
    by (simp add: well_formed_def sample_def_def)
  have h: "get_prop (backend sample_def) ''http''
      = Inr (JObj [(''baseUrl'', JStr ''https://backend/api'')])"
    by (simp add: sample_def_def)
  have th: "truthy (JObj [(''baseUrl'', JStr ''https://backend/api'')])"
    by simp
  have bu: "get_prop (JObj [(''baseUrl'', JStr ''https://backend/api'')]) ''baseUrl''
      = Inr (JStr ''https://backend/api'')"
    by simp
  have tb: "truthy (JStr ''https://backend/api'')"
    by simp
  show ?thesis
    using wf h th bu tb http_backend_mapping [OF wf h th bu tb, of "JStr ''admin''"
        "JArr [JStr ''Production and Sandbox'']" JUndefined "[]"]
    by blast
qed




lemma map_of_without_key:
  "k \<noteq> k' \<Longrightarrow> map_of (filter (\<lambda>kv. fst kv \<noteq> k') kvs) k = map_of kvs k"
  by (induction kvs) auto

lemma cors_backend_update:
  "constructCorsConfiguration (d\<lparr>backend := b'\<rparr>) = constructCorsConfiguration d"
  by (simp add: constructCorsConfiguration_def)

lemma fields_backend_update:
  "wso2ApiDefinition usr env (d\<lparr>backend := b'\<rparr>) apiId u t ms ts et ap e1 e2 n1 n2
     = wso2ApiDefinition usr env d apiId u t ms ts et ap e1 e2 n1 n2"
  by (simp add: wso2ApiDefinition_def)

lemma constructAPIDef_backend_cong:
  assumes "backend_params (backend d) = backend_params b'"
    and "get_prop (backend d) ''endpointType'' = get_prop b' ''endpointType''"
  shows "constructAPIDef usr env (d\<lparr>backend := b'\<rparr>) apiId log = constructAPIDef usr env d apiId log"
proof -
  have "constructAPIDef_try usr env (d\<lparr>backend := b'\<rparr>) apiId = constructAPIDef_try usr env d apiId"
    unfolding constructAPIDef_try_def cors_backend_update fields_backend_update assms
    by simp
  then show ?thesis
    by (simp add: constructAPIDef_def)
qed

text \<open>
  Claim C8. When the backend descriptor holds both an HTTP and a JMS backend, the mapper does
  not fail: the type is \<open>HTTP\<close>, the backend URL is the HTTP base URL, and the result is
  the one obtained from the same definition without the JMS entry.
\<close>

theorem http_preferred_over_jms:
  assumes "well_formed d" and "backend d = JObj kvs"
    and "map_of kvs ''http'' = Some http" and "truthy http"
    and "map_of kvs ''jms'' = Some jms" and "truthy jms"
    and "get_prop http ''baseUrl'' = Inr baseUrl" and "truthy baseUrl"
  shows "\<exists>out endpoint_type. constructAPIDef usr env d apiId log = (out, log) \<and>
     get_prop out ''type'' = Inr (JStr ''HTTP'') \<and>
     get_prop out ''endpointConfig'' = Inr (JSON_stringify (JObj
       [(''production_endpoints'', JObj [(''url'', baseUrl), (''config'', JNull)]),
        (''sandbox_endpoints'', JObj [(''url'', baseUrl), (''config'', JNull)]),
        (''endpoint_type'', endpoint_type)])) \<and>
     constructAPIDef usr env (d\<lparr>backend := JObj (filter (\<lambda>kv. fst kv \<noteq> ''jms'') kvs)\<rparr>) apiId log
       = (out, log)"
proof -
  let ?b' = "JObj (filter (\<lambda>kv. fst kv \<noteq> ''jms'') kvs)"
  have h: "get_prop (backend d) ''http'' = Inr http"
    using assms(2,3) by simp
  have h': "get_prop ?b' ''http'' = Inr http"
    using assms(3) by (simp add: map_of_without_key)
  have "backend_params (backend d) = backend_params ?b'"
    using backend_params_http [OF h assms(4,7)] backend_params_http [OF h' assms(4,7)]
    by simp
  moreover have "get_prop (backend d) ''endpointType'' = get_prop ?b' ''endpointType''"
    using assms(2) by (simp add: map_of_without_key)
  ultimately have same:
    "constructAPIDef usr env (d\<lparr>backend := ?b'\<rparr>) apiId log = constructAPIDef usr env d apiId log"
    by (rule constructAPIDef_backend_cong)
  obtain u t ms ts et ap em nm extra where
    b: "backend_params (backend d) = Inr (u, t)" and
    r: "constructAPIDef usr env d apiId log =
       (JObj (wso2ApiDefinition usr env d apiId u t ms ts et ap em em nm nm @ extra), log)"
    using constructAPIDef_shape [OF assms(1), of usr env apiId log] by blast
  from b backend_params_http [OF h assms(4,7)] assms(8) have ut: "u = baseUrl" "t = JStr ''HTTP''"
    by simp_all
  let ?out = "JObj (wso2ApiDefinition usr env d apiId baseUrl (JStr ''HTTP'') ms ts et ap em em nm nm
                    @ extra)"
  have c: "constructAPIDef usr env d apiId log = (?out, log)"
    using r ut by simp
  moreover have "get_prop ?out ''type'' = Inr (JStr ''HTTP'')"
    by (rule fixed_fields)
  moreover have "get_prop ?out ''endpointConfig'' = Inr (JSON_stringify (JObj
       [(''production_endpoints'', JObj [(''url'', baseUrl), (''config'', JNull)]),
        (''sandbox_endpoints'', JObj [(''url'', baseUrl), (''config'', JNull)]),
        (''endpoint_type'', if truthy et then et else JStr ''http'')]))"
    using fixed_fields(9) [of usr env d apiId baseUrl "JStr ''HTTP''" ms ts et ap em em nm nm extra]
    by (simp only: endpoint_config_def)
  moreover have "constructAPIDef usr env (d\<lparr>backend := ?b'\<rparr>) apiId log = (?out, log)"
    using same c by simp
  ultimately show ?thesis
    by blast
qed

theorem http_preferred_over_jms_witness:
  "\<exists>out endpoint_type.
     constructAPIDef (JStr ''admin'') (JArr [JStr ''Production and Sandbox''])
       (sample_def\<lparr>backend := JObj [(''jms'', JObj [(''destination'', JStr ''D'')]),
                                     (''http'', JObj [(''baseUrl'', JStr ''https://backend/api'')])]\<rparr>)
       JUndefined [] = (out, []) \<and>
     get_prop out ''type'' = Inr (JStr ''HTTP'') \<and>
     get_prop out ''endpointConfig'' = Inr (JSON_stringify (JObj
       [(''production_endpoints'',
           JObj [(''url'', JStr ''https://backend/api''), (''config'', JNull)]),
        (''sandbox_endpoints'',
           JObj [(''url'', JStr ''https://backend/api''), (''config'', JNull)]),
        (''endpoint_type'', endpoint_type)])) \<and>
     constructAPIDef (JStr ''admin'') (JArr [JStr ''Production and Sandbox''])
       (sample_def\<lparr>backend := JObj [(''http'', JObj [(''baseUrl'', JStr ''https://backend/api'')])]\<rparr>)
       JUndefined [] = (out, [])"
proof -
  let ?kvs = "[(''jms'', JObj [(''destination'', JStr ''D'')]),
               (''http'', JObj [(''baseUrl'', JStr ''https://backend/api'')])]"
  let ?d = "sample_def\<lparr>backend := JObj ?kvs\<rparr>"
  have wf: "well_formed ?d"
    by (simp add: well_formed_def sample_def_def)
  have b: "backend ?d = JObj ?kvs"
    by simp
  have h: "map_of ?kvs ''http'' = Some (JObj [(''baseUrl'', JStr ''https://backend/api'')])"
    by simp
  have th: "truthy (JObj [(''baseUrl'', JStr ''https://backend/api'')])"
    by simp
  have j: "map_of ?kvs ''jms'' = Some (JObj [(''destination'', JStr ''D'')])"
    by simp
  have tj: "truthy (JObj [(''destination'', JStr ''D'')])"
    by simp
  have bu: "get_prop (JObj [(''baseUrl'', JStr ''https://backend/api'')]) ''baseUrl''
      = Inr (JStr ''https://backend/api'')"
    by simp
  have tb: "truthy (JStr ''https://backend/api'')"
    by simp
  show ?thesis
    using http_preferred_over_jms [OF wf b h th j tj bu tb, of "JStr ''admin''"
        "JArr [JStr ''Production and Sandbox'']" JUndefined "[]"]
    by simp
qed

text \<open>
  Claim C6. \<open>constructAPIDef\<close> is deterministic: what it returns does not depend on the
  state in which it is called, so a second call with the same arguments, made after the
  first, returns an equal value.
\<close>

theorem constructAPIDef_deterministic:
  "fst (constructAPIDef usr env d apiId log) = fst (constructAPIDef usr env d apiId log') \<and>
   fst (constructAPIDef usr env d apiId (snd (constructAPIDef usr env d apiId log)))
     = fst (constructAPIDef usr env d apiId log)"
  by (simp add: constructAPIDef_def split: sum.splits)

lemma get_corsConfiguration:
  "get_prop (JObj (wso2ApiDefinition usr env d apiId u t ms ts et ap e1 e2 n1 n2
                   @ [(''corsConfiguration'', c)])) ''corsConfiguration'' = Inr c"
  by (simp add: corsConfiguration_absent(1) map_add_def)

text \<open>
  Claim C4. With a CORS block, the output has a \<open>corsConfiguration\<close> that is enabled and
  takes each of origins, credentials, headers and methods from the block when it is set
  there (truthy) and the vendor default otherwise: \<open>['*']\<close>, \<open>false\<close>, the four headers,
  the six methods. Without a CORS block the output has no \<open>corsConfiguration\<close> key.
\<close>

theorem cors_mapping:
  assumes "well_formed d"
  shows "\<exists>out. constructAPIDef usr env d apiId log = (out, log) \<and>
     (truthy (cors d) \<longrightarrow>
        (\<exists>origins credentials headers methods.
           get_prop (cors d) ''origins'' = Inr origins \<and>
           get_prop (cors d) ''credentials'' = Inr credentials \<and>
           get_prop (cors d) ''headers'' = Inr headers \<and>
           get_prop (cors d) ''methods'' = Inr methods \<and>
           get_prop out ''corsConfiguration'' = Inr (JObj
             [(''corsConfigurationEnabled'', JBool True),
              (''accessControlAllowOrigins'',
                 if truthy origins then origins else JArr [JStr ''*'']),
              (''accessControlAllowCredentials'',
                 if truthy credentials then credentials else JBool False),
              (''accessControlAllowHeaders'',
                 if truthy headers then headers
                 else JArr [JStr ''Authorization'', JStr ''Access-Control-Allow-Origin'',
                            JStr ''Content-Type'', JStr ''SOAPAction'']),
              (''accessControlAllowMethods'',
                 if truthy methods then methods
                 else JArr [JStr ''GET'', JStr ''PUT'', JStr ''POST'', JStr ''DELETE'',
                            JStr ''PATCH'', JStr ''OPTIONS''])]))) \<and>
     (\<not> truthy (cors d) \<longrightarrow>
        (\<exists>ks. Object_keys out = Inr ks \<and> ''corsConfiguration'' \<notin> set ks))"
proof -
  obtain u t ms ts et ap em nm where
    r: "constructAPIDef usr env d apiId log =
       (JObj (wso2ApiDefinition usr env d apiId u t ms ts et ap em em nm nm
              @ (if truthy (cors d)
                 then case constructCorsConfiguration d of Inr c \<Rightarrow> [(''corsConfiguration'', c)]
                      | Inl e \<Rightarrow> []
                 else [])), log)"
    using constructAPIDef_shape [OF assms, of usr env apiId log] by blast
  show ?thesis
  proof (cases "truthy (cors d)")
    case True
    then obtain origins credentials headers methods where
      g: "get_prop (cors d) ''origins'' = Inr origins"
         "get_prop (cors d) ''credentials'' = Inr credentials"
         "get_prop (cors d) ''headers'' = Inr headers"
         "get_prop (cors d) ''methods'' = Inr methods" and
      c: "constructCorsConfiguration d = Inr (JObj
         [(''corsConfigurationEnabled'', JBool True),
          (''accessControlAllowOrigins'', js_or origins (JArr [JStr ''*''])),
          (''accessControlAllowCredentials'', js_or credentials (JBool False)),
          (''accessControlAllowHeaders'', js_or headers defaultAllowHeaders),
          (''accessControlAllowMethods'', js_or methods defaultAllowMethods)])"
      using cors_configuration_value by blast
    let ?c = "JObj
         [(''corsConfigurationEnabled'', JBool True),
          (''accessControlAllowOrigins'',
             if truthy origins then origins else JArr [JStr ''*'']),
          (''accessControlAllowCredentials'',
             if truthy credentials then credentials else JBool False),
          (''accessControlAllowHeaders'',
             if truthy headers then headers
             else JArr [JStr ''Authorization'', JStr ''Access-Control-Allow-Origin'',
                        JStr ''Content-Type'', JStr ''SOAPAction'']),
          (''accessControlAllowMethods'',
             if truthy methods then methods
             else JArr [JStr ''GET'', JStr ''PUT'', JStr ''POST'', JStr ''DELETE'',
                        JStr ''PATCH'', JStr ''OPTIONS''])]"
    let ?out = "JObj (wso2ApiDefinition usr env d apiId u t ms ts et ap em em nm nm
                      @ [(''corsConfiguration'', ?c)])"
    have c': "constructCorsConfiguration d = Inr ?c"
      using c by (simp only: js_or_def defaultAllowHeaders_def defaultAllowMethods_def)
    have res: "constructAPIDef usr env d apiId log = (?out, log)"
      using r True c' by simp
    have gc: "get_prop ?out ''corsConfiguration'' = Inr ?c"
      by (rule get_corsConfiguration)
    show ?thesis
      apply (rule exI [of _ ?out])
      apply (intro conjI impI)
        apply (rule res)
       apply (rule exI [of _ origins], rule exI [of _ credentials])
       apply (rule exI [of _ headers], rule exI [of _ methods])
       apply (intro conjI g gc)
      apply (simp add: True)
      done
  next
    case False
    let ?out = "JObj (wso2ApiDefinition usr env d apiId u t ms ts et ap em em nm nm)"
    have "constructAPIDef usr env d apiId log = (?out, log)"
      using r False by simp
    moreover have "Object_keys ?out
        = Inr (map fst (wso2ApiDefinition usr env d apiId u t ms ts et ap em em nm nm))"
      by simp
    moreover have
      "''corsConfiguration'' \<notin> set (map fst (wso2ApiDefinition usr env d apiId u t ms ts et ap em em nm nm))"
      by (simp add: corsConfiguration_absent(2))
    ultimately show ?thesis
      using False by blast
  qed
qed

theorem cors_mapping_witness:
  "(\<exists>out. constructAPIDef (JStr ''admin'') (JArr [JStr ''Production and Sandbox''])
       (sample_def\<lparr>cors := JObj [(''origins'', JArr [JStr ''https://shop'']),
                                  (''credentials'', JBool True)]\<rparr>) JUndefined [] = (out, []) \<and>
     get_prop out ''corsConfiguration'' = Inr (JObj
       [(''corsConfigurationEnabled'', JBool True),
        (''accessControlAllowOrigins'', JArr [JStr ''https://shop'']),
        (''accessControlAllowCredentials'', JBool True),
        (''accessControlAllowHeaders'',
           JArr [JStr ''Authorization'', JStr ''Access-Control-Allow-Origin'',
                 JStr ''Content-Type'', JStr ''SOAPAction'']),
        (''accessControlAllowMethods'',
           JArr [JStr ''GET'', JStr ''PUT'', JStr ''POST'', JStr ''DELETE'',
                 JStr ''PATCH'', JStr ''OPTIONS''])])) \<and>
   (\<exists>out ks. constructAPIDef (JStr ''admin'') (JArr [JStr ''Production and Sandbox''])
       sample_def JUndefined [] = (out, []) \<and>
     Object_keys out = Inr ks \<and> ''corsConfiguration'' \<notin> set ks)"
proof -
  let ?d = "sample_def\<lparr>cors := JObj [(''origins'', JArr [JStr ''https://shop'']),
                                      (''credentials'', JBool True)]\<rparr>"
  have wf1: "well_formed ?d"
    by (simp add: well_formed_def sample_def_def)
  have wf2: "well_formed sample_def"
    by (simp add: well_formed_def sample_def_def)
  have nc: "\<not> truthy (cors sample_def)"
    by (simp add: sample_def_def)
  have "\<exists>out. constructAPIDef (JStr ''admin'') (JArr [JStr ''Production and Sandbox''])
       ?d JUndefined [] = (out, []) \<and>
     get_prop out ''corsConfiguration'' = Inr (JObj
       [(''corsConfigurationEnabled'', JBool True),
        (''accessControlAllowOrigins'', JArr [JStr ''https://shop'']),
        (''accessControlAllowCredentials'', JBool True),
        (''accessControlAllowHeaders'',
           JArr [JStr ''Authorization'', JStr ''Access-Control-Allow-Origin'',
                 JStr ''Content-Type'', JStr ''SOAPAction'']),
        (''accessControlAllowMethods'',
           JArr [JStr ''GET'', JStr ''PUT'', JStr ''POST'', JStr ''DELETE'',
                 JStr ''PATCH'', JStr ''OPTIONS''])])"
    using cors_mapping [OF wf1, of "JStr ''admin''" "JArr [JStr ''Production and Sandbox'']"
        JUndefined "[]"]
    by auto
  moreover have "\<exists>out ks. constructAPIDef (JStr ''admin'') (JArr [JStr ''Production and Sandbox''])
       sample_def JUndefined [] = (out, []) \<and>
     Object_keys out = Inr ks \<and> ''corsConfiguration'' \<notin> set ks"
    using cors_mapping [OF wf2, of "JStr ''admin''" "JArr [JStr ''Production and Sandbox'']"
        JUndefined "[]"] nc
    by blast
  ultimately show ?thesis
    by blast
qed

section \<open>Properties of the resource operations\<close>

lemma show_nat_404: "show_nat 404 = ''404''"
  by code_simp

lemma show_nat_409: "show_nat 409 = ''409''"
  by code_simp

lemma reject_unless_code_quiet:
  assumes "vendor_code err = Inr code" and "loose_eq_numeral code n"
  shows "then_catch f (reject_unless_code n) (Inl err) log = (Rejected err, log)"
  using assms by (simp add: then_catch_def reject_unless_code_def thenJ_Inl)

lemma reject_unless_code_logged:
  assumes "vendor_code err = Inr code" and "\<not> loose_eq_numeral code n"
  shows "then_catch f (reject_unless_code n) (Inl err) log = (Rejected err, renderError err log)"
  using assms by (simp add: then_catch_def reject_unless_code_def thenJ_Inl)

lemma loose_eq_404: "\<not> is_array code \<Longrightarrow>
    loose_eq_numeral code 404 \<longleftrightarrow> code = JNum 404 \<or> code = JStr ''404''"
  by (cases code) (auto simp: show_nat_404)

lemma loose_eq_409: "\<not> is_array code \<Longrightarrow>
    loose_eq_numeral code 409 \<longleftrightarrow> code = JNum 409 \<or> code = JStr ''409''"
  by (cases code) (auto simp: show_nat_409)

text \<open>
  Claim C3. For an error that carries a vendor error code: \<open>isCertUploaded\<close> and
  \<open>removeCert\<close> on code 404, and \<open>uploadCert\<close> on code 409, reject with the error and do
  not call the error-logging routine; on any other code (a number, a string, or none)
  they call it exactly once, with the error, and reject with the error.
\<close>

theorem expected_certificate_errors:
  assumes "vendor_code err = Inr code"
  shows "(code = JNum 404 \<or> code = JStr ''404'' \<longrightarrow>
            isCertUploaded (Inl err) log = (Rejected err, log) \<and>
            removeCert (Inl err) log = (Rejected err, log)) \<and>
         (code = JNum 409 \<or> code = JStr ''409'' \<longrightarrow>
            uploadCert (Inl err) log = (Rejected err, log)) \<and>
         (\<not> is_array code \<and> code \<noteq> JNum 404 \<and> code \<noteq> JStr ''404'' \<longrightarrow>
            isCertUploaded (Inl err) log = (Rejected err, renderError err log) \<and>
            removeCert (Inl err) log = (Rejected err, renderError err log)) \<and>
         (\<not> is_array code \<and> code \<noteq> JNum 409 \<and> code \<noteq> JStr ''409'' \<longrightarrow>
            uploadCert (Inl err) log = (Rejected err, renderError err log)) \<and>
         renderError err log = log @ [err]"
proof (intro conjI impI)
  assume c: "code = JNum 404 \<or> code = JStr ''404''"
  then have "loose_eq_numeral code 404"
    by (auto simp: show_nat_404)
  then show "isCertUploaded (Inl err) log = (Rejected err, log)"
    and "removeCert (Inl err) log = (Rejected err, log)"
    unfolding isCertUploaded_def removeCert_def
    by (rule reject_unless_code_quiet [OF assms])+
next
  assume c: "code = JNum 409 \<or> code = JStr ''409''"
  then have "loose_eq_numeral code 409"
    by (auto simp: show_nat_409)
  then show "uploadCert (Inl err) log = (Rejected err, log)"
    unfolding uploadCert_def
    by (rule reject_unless_code_quiet [OF assms])
next
  assume "\<not> is_array code \<and> code \<noteq> JNum 404 \<and> code \<noteq> JStr ''404''"
  then have "\<not> loose_eq_numeral code 404"
    by (simp add: loose_eq_404)
  then show "isCertUploaded (Inl err) log = (Rejected err, renderError err log)"
    and "removeCert (Inl err) log = (Rejected err, renderError err log)"
    unfolding isCertUploaded_def removeCert_def
    by (rule reject_unless_code_logged [OF assms])+
next
  assume "\<not> is_array code \<and> code \<noteq> JNum 409 \<and> code \<noteq> JStr ''409''"
  then have "\<not> loose_eq_numeral code 409"
    by (simp add: loose_eq_409)
  then show "uploadCert (Inl err) log = (Rejected err, renderError err log)"
    unfolding uploadCert_def
    by (rule reject_unless_code_logged [OF assms])
next
  show "renderError err log = log @ [err]"
    by (simp add: renderError_def)
qed

theorem expected_certificate_errors_witness:
  "isCertUploaded (Inl (sample_error (JNum 404))) [] = (Rejected (sample_error (JNum 404)), []) \<and>
   removeCert (Inl (sample_error (JNum 404))) [] = (Rejected (sample_error (JNum 404)), []) \<and>
   uploadCert (Inl (sample_error (JNum 404))) []
     = (Rejected (sample_error (JNum 404)), [sample_error (JNum 404)]) \<and>
   uploadCert (Inl (sample_error (JNum 409))) [] = (Rejected (sample_error (JNum 409)), []) \<and>
   isCertUploaded (Inl (sample_error (JNum 409))) []
     = (Rejected (sample_error (JNum 409)), [sample_error (JNum 409)]) \<and>
   removeCert (Inl (sample_error (JNum 409))) []
     = (Rejected (sample_error (JNum 409)), [sample_error (JNum 409)])"
proof -
  have v4: "vendor_code (sample_error (JNum 404)) = Inr (JNum 404)"
    by (simp add: vendor_code_def sample_error_def thenJ_Inr)
  have v9: "vendor_code (sample_error (JNum 409)) = Inr (JNum 409)"
    by (simp add: vendor_code_def sample_error_def thenJ_Inr)
  show ?thesis
    using expected_certificate_errors [OF v4, of "[]"] expected_certificate_errors [OF v9, of "[]"]
    by simp
qed

lemma plain_operations_reject_with_error:
  "registerClient (Inl err) log = (Rejected err, renderError err log)"
  "generateToken (Inl err) log = (Rejected err, renderError err log)"
  "isAPIDeployed (Inl err) log = (Rejected err, renderError err log)"
  "publishAPIDef (Inl err) log = (Rejected err, renderError err log)"
  "listInvokableAPIUrl (Inl err) log = (Rejected err, renderError err log)"
  "removeAPIDef (Inl err) log = (Rejected err, renderError err log)"
  "updateCert (Inl err) log = (Rejected err, renderError err log)"
  "listCertInfo (Inl err) log = (Rejected err, renderError err log)"
  "fst (updateAPIDef cfg d apiId (Inl err) log) = Rejected err"
  by (simp_all add: registerClient_def generateToken_def isAPIDeployed_def publishAPIDef_def
      listInvokableAPIUrl_def removeAPIDef_def updateCert_def listCertInfo_def updateAPIDef_def
      then_catch_def render_and_reject_def thenJ_Inl split: prod.splits)

lemma certificate_operations_pending:
  assumes "vendor_code err = Inl thrown"
  shows "isCertUploaded (Inl err) log = (Pending, log)"
    and "uploadCert (Inl err) log = (Pending, log)"
    and "removeCert (Inl err) log = (Pending, log)"
  using assms
  by (simp_all add: isCertUploaded_def uploadCert_def removeCert_def then_catch_def
      reject_unless_code_def thenJ_Inl)

lemma vendor_code_without_response:
  "vendor_code (JObj [(''message'', JStr ''connect ECONNREFUSED'')]) = Inl TypeError"
  by (simp add: vendor_code_def thenJ_def)

text \<open>
  Claim C2 says that every operation rejects with the error of the failed HTTP call itself.
  The operations above do. \<open>createAPIDef\<close> does not: its promise is rejected with what
  \<open>utils.renderError\<close> returned for the error.
\<close>

theorem createAPIDef_rejects_with_rendering:
  "fst (createAPIDef rendered cfg d (Inl err) log) = Rejected (rendered err)"
  by (simp add: createAPIDef_def then_catch_def thenJ_Inl split: prod.splits)

end
